theory Spec2Isabelle
  imports Main
begin

section \<open>ACL handlers of swift3 (swift3/acl\_handlers.py)\<close>

text \<open>
  The module checks S3 requests against the ACLs that Swift stores with containers and
  objects. The development follows the source top down: the data the handlers see, the
  collaborators they call (the request, the backend, the ACL class), \<open>get_acl\<close>, the
  handler classes with their constructors and methods, and the table \<open>ACL_MAP\<close>.
\<close>

subsection \<open>Python values\<close>

text \<open>
  A Python value that is a string or \<open>None\<close> is a \<open>string option\<close>. \<open>truthy\<close> is
  Python's truth test on such a value: \<open>None\<close> and the empty string are false.
\<close>

type_synonym pystr = "string option"

definition truthy :: "pystr \<Rightarrow> bool" where
  "truthy s = (case s of None \<Rightarrow> False | Some x \<Rightarrow> x \<noteq> [])"

text \<open>
  The slice \<open>s[:-n]\<close> for \<open>n = len(suffix)\<close>: Python reads \<open>-0\<close> as the index
  \<open>0\<close>, so the slice is empty when \<open>n = 0\<close>; for \<open>n > len(s)\<close> it is empty too.
\<close>

definition slice_to_minus :: "string \<Rightarrow> nat \<Rightarrow> string" where
  "slice_to_minus s n = (if n = 0 then [] else take (length s - n) s)"

definition endswith :: "string \<Rightarrow> string \<Rightarrow> bool" where
  "endswith s sfx = (length sfx \<le> length s \<and> drop (length s - length sfx) s = sfx)"

subsection \<open>Data: owners, grants, ACLs, responses, errors\<close>

record Owner =
  id' :: string
  name :: string

record Grant =
  grantee :: string
  permission :: string

record ACL =
  owner :: Owner
  grants :: "Grant list"

type_synonym headers = "(string \<times> string) list"

text \<open>A backend response as \<open>get_acl_response\<close> returns it, with both ACL attributes set
  (either may be \<open>None\<close>).\<close>

record resp =
  bucket_acl :: "ACL option"
  object_acl :: "ACL option"

text \<open>
  Every exception the module raises or lets through. \<open>MissingSecurityHeader\<close>,
  \<open>MalformedACLError\<close> and \<open>UnexpectedContent\<close> are raised by \<open>get_acl\<close>;
  \<open>PyException\<close> is the plain \<open>Exception\<close> of \<open>_handle_acl\<close>; \<open>XMLSyntaxError\<close> and
  \<open>DocumentInvalid\<close> come from the XML parser; \<open>AttributeError\<close>, \<open>TypeError\<close> and
  \<open>UnboundLocalError\<close> are what Python raises on \<open>None.attr\<close>, on calling or slicing a
  value that does not allow it, and on reading a local that no branch assigned;
  \<open>OtherError\<close> stands for any other exception of a collaborator.
\<close>

datatype error =
    MissingSecurityHeader string string
  | MalformedACLError
  | UnexpectedContent
  | AccessDenied
  | OwnerMismatch
  | XMLSyntaxError
  | DocumentInvalid
  | PyException string
  | AttributeError
  | TypeError
  | UnboundLocalError
  | OtherError string

subsection \<open>The permission table\<close>

text \<open>A value of \<open>ACL_MAP\<close>: a dict with the key \<open>'Permission'\<close> and, for one entry, the
  key \<open>'Resource'\<close>.\<close>

record acl_check =
  Resource :: "string option"
  Permission :: string

text \<open>The dict literal of the source, entry by entry, in the source's order.\<close>

definition ACL_MAP_items :: "((string \<times> string \<times> string) \<times> acl_check) list" where
  "ACL_MAP_items =
    [ ((''HEAD'', ''HEAD'', ''container''), \<lparr>Resource = None, Permission = ''READ''\<rparr>),
      ((''GET'', ''HEAD'', ''container''), \<lparr>Resource = None, Permission = ''OWNER''\<rparr>),
      ((''GET'', ''GET'', ''container''), \<lparr>Resource = None, Permission = ''READ''\<rparr>),
      ((''PUT'', ''HEAD'', ''container''), \<lparr>Resource = None, Permission = ''WRITE''\<rparr>),
      ((''DELETE'', ''DELETE'', ''container''), \<lparr>Resource = None, Permission = ''OWNER''\<rparr>),
      ((''HEAD'', ''HEAD'', ''object''), \<lparr>Resource = None, Permission = ''READ''\<rparr>),
      ((''GET'', ''GET'', ''object''), \<lparr>Resource = None, Permission = ''READ''\<rparr>),
      ((''PUT'', ''HEAD'', ''object''), \<lparr>Resource = None, Permission = ''READ''\<rparr>),
      ((''POST'', ''PUT'', ''container''), \<lparr>Resource = None, Permission = ''WRITE''\<rparr>),
      ((''DELETE'', ''HEAD'', ''container''), \<lparr>Resource = None, Permission = ''WRITE''\<rparr>),
      ((''DELETE'', ''DELETE'', ''object''),
         \<lparr>Resource = Some ''container'', Permission = ''WRITE''\<rparr>),
      ((''POST'', ''HEAD'', ''container''), \<lparr>Resource = None, Permission = ''WRITE''\<rparr>) ]"

definition ACL_MAP :: "(string \<times> string \<times> string) \<rightharpoonup> acl_check" where
  "ACL_MAP = map_of ACL_MAP_items"

subsection \<open>The request and the collaborators\<close>

text \<open>
  What the handlers read and write on the request object \<open>req\<close>: the names, the
  caller, the headers, \<open>environ['REQUEST_METHOD']\<close>, the two request-kind properties,
  the outcome of \<open>req.xml(ACL.max_xml_length)\<close> (the body, or the exception reading it
  raises) and the two attributes \<open>bucket_acl\<close> and \<open>object_acl\<close> that the handlers
  assign. \<open>trace\<close> is a ghost field: the backend calls and the assignments to the two
  ACL attributes, in the order they happen.
\<close>

datatype event =
    Call string pystr pystr "headers option"
  | SetBucketAcl "ACL option"
  | SetObjectAcl "ACL option"

record request =
  container_name :: pystr
  object_name :: pystr
  user_id :: string
  req_headers :: headers
  REQUEST_METHOD :: string
  is_object_request :: bool
  is_bucket_request :: bool
  xml :: "error + pystr"
  req_bucket_acl :: "ACL option"
  req_object_acl :: "ACL option"
  trace :: "event list"

text \<open>
  The code this module imports and calls, taken as parameters:
  \<^item> \<open>from_headers hs bucket_owner object_owner as_private\<close> is \<open>ACL.from_headers\<close>
    (an ACL, \<open>None\<close>, or an exception);
  \<^item> \<open>from_body b\<close> is \<open>fromstring(body, ACL.root_tag)\<close> followed by \<open>ACL.from_elem\<close>;
  \<^item> \<open>check_permission acl user perm\<close> is \<open>ACL.check_permission\<close>;
  \<^item> \<open>backend req method container obj headers\<close> is what \<open>req.get_acl_response\<close>
    answers to a call with these arguments (an argument left out is \<open>None\<close>), in the
    state \<open>req\<close> of the request, its history included;
  \<^item> \<open>MULTIUPLOAD_SUFFIX\<close> is the constant of \<open>swift3.utils\<close>.
\<close>

record collab =
  from_headers :: "headers \<Rightarrow> Owner \<Rightarrow> Owner option \<Rightarrow> bool \<Rightarrow> error + ACL option"
  from_body :: "string \<Rightarrow> error + ACL"
  check_permission :: "ACL \<Rightarrow> string \<Rightarrow> string \<Rightarrow> error + unit"
  backend :: "request \<Rightarrow> string \<Rightarrow> pystr \<Rightarrow> pystr \<Rightarrow> headers option \<Rightarrow> error + resp"
  MULTIUPLOAD_SUFFIX :: string

text \<open>
  Modelled from the spec: \<open>ACL.check_owner\<close> of \<open>swift3.subresource\<close>, which is not
  among the sources. The specification says that an ACL write is rejected with an
  owner-mismatch error when the supplied owner id differs from the owner id of the
  existing ACL, and goes on otherwise.
\<close>

definition check_owner :: "ACL \<Rightarrow> string \<Rightarrow> error + unit" where
  "check_owner acl uid = (if uid = id' (owner acl) then Inr () else Inl OwnerMismatch)"

text \<open>A computation of a handler: it ends with an exception or a value, and leaves the
  request in a new state either way.\<close>

type_synonym 'a run = "request \<Rightarrow> (error + 'a) \<times> request"

text \<open>\<open>req.get_acl_response(app, method, container, obj, headers)\<close>: the call is
  recorded, and the backend answers.\<close>

definition get_acl_response ::
  "collab \<Rightarrow> string \<Rightarrow> pystr \<Rightarrow> pystr \<Rightarrow> headers option \<Rightarrow> resp run" where
  "get_acl_response env m c ob hs r =
     (backend env r m c ob hs, r\<lparr>trace := trace r @ [Call m c ob hs]\<rparr>)"

subsection \<open>\<open>get_acl\<close>\<close>

definition get_acl ::
  "collab \<Rightarrow> headers \<Rightarrow> pystr \<Rightarrow> Owner \<Rightarrow> Owner option \<Rightarrow> error + ACL" where
  "get_acl env hs body bucket_owner object_owner =
     (case from_headers env hs bucket_owner object_owner False of
        Inl e \<Rightarrow> Inl e
      | Inr None \<Rightarrow>
          (if \<not> truthy body
           then Inl (MissingSecurityHeader ''Your request was missing a required header''
                       ''x-amz-acl'')
           else (case from_body env (the body) of
                   Inl XMLSyntaxError \<Rightarrow> Inl MalformedACLError
                 | Inl DocumentInvalid \<Rightarrow> Inl MalformedACLError
                 | Inl e \<Rightarrow> Inl e
                 | Inr acl \<Rightarrow> Inr acl))
      | Inr (Some acl) \<Rightarrow>
          (if truthy body then Inl UnexpectedContent else Inr acl))"

subsection \<open>The handler classes\<close>

datatype handler_class =
    BaseAclHandler
  | BucketAclHandler
  | ObjectAclHandler
  | S3AclHandler
  | MultiObjectDeleteAclHandler
  | MultiUploadAclHandler
  | PartAclHandler
  | UploadsAclHandler
  | UploadAclHandler

text \<open>
  An instance: its class and the attributes the constructors set. \<open>check_copy_src\<close> is an
  attribute of \<open>PartAclHandler\<close> instances only; for the other classes the field is
  \<open>False\<close> and is never read.
  The attributes \<open>method\<close>, \<open>user_id\<close> and \<open>headers\<close> are the fields
  \<open>h_method\<close>, \<open>h_user_id\<close> and \<open>h_headers\<close> (\<open>method\<close> is an Isabelle keyword, the
  other two are fields of the request already).
\<close>

record handler =
  cls :: handler_class
  container :: pystr
  obj :: pystr
  h_method :: string
  h_user_id :: string
  h_headers :: headers
  check_copy_src :: bool

text \<open>\<open>BaseAclHandler.__init__\<close>.\<close>

definition Base_init ::
  "handler_class \<Rightarrow> request \<Rightarrow> pystr \<Rightarrow> pystr \<Rightarrow> headers option \<Rightarrow> handler" where
  "Base_init k r c ob hs =
     \<lparr> cls = k,
       container = (case c of None \<Rightarrow> container_name r | Some x \<Rightarrow> Some x),
       obj = (case ob of None \<Rightarrow> object_name r | Some x \<Rightarrow> Some x),
       h_method = REQUEST_METHOD r,
       h_user_id = user_id r,
       h_headers = (case hs of None \<Rightarrow> req_headers r | Some x \<Rightarrow> x),
       check_copy_src = False \<rparr>"

text \<open>\<open>MultiUploadAclHandler.__init__\<close>: the base constructor, then the slice. Slicing
  \<open>None\<close> is a \<open>TypeError\<close>.\<close>

definition MultiUpload_init ::
  "collab \<Rightarrow> handler_class \<Rightarrow> request \<Rightarrow> pystr \<Rightarrow> pystr \<Rightarrow> headers option \<Rightarrow> error + handler" where
  "MultiUpload_init env k r c ob hs =
     (let self = Base_init k r c ob hs in
      case container self of
        None \<Rightarrow> Inl TypeError
      | Some s \<Rightarrow>
          Inr (self\<lparr>container := Some (slice_to_minus s (length (MULTIUPLOAD_SUFFIX env)))\<rparr>))"

text \<open>\<open>PartAclHandler.__init__\<close>: the base constructor (the one of \<open>MultiUploadAclHandler\<close>
  is skipped), then the test for the suffix. \<open>None.endswith\<close> is an \<open>AttributeError\<close>.\<close>

definition Part_init ::
  "collab \<Rightarrow> handler_class \<Rightarrow> request \<Rightarrow> pystr \<Rightarrow> pystr \<Rightarrow> headers option \<Rightarrow> error + handler" where
  "Part_init env k r c ob hs =
     (let self = (Base_init k r c ob hs)\<lparr>check_copy_src := False\<rparr> in
      case container self of
        None \<Rightarrow> Inl AttributeError
      | Some s \<Rightarrow>
          (if endswith s (MULTIUPLOAD_SUFFIX env)
           then Inr (self\<lparr>container :=
                        Some (slice_to_minus s (length (MULTIUPLOAD_SUFFIX env)))\<rparr>)
           else Inr (self\<lparr>check_copy_src := True\<rparr>)))"

text \<open>Instantiating a class runs the constructor that the class defines or inherits.\<close>

fun new_handler ::
  "collab \<Rightarrow> handler_class \<Rightarrow> request \<Rightarrow> pystr \<Rightarrow> pystr \<Rightarrow> headers option \<Rightarrow> error + handler" where
  "new_handler env MultiUploadAclHandler r c ob hs = MultiUpload_init env MultiUploadAclHandler r c ob hs"
| "new_handler env UploadsAclHandler r c ob hs = MultiUpload_init env UploadsAclHandler r c ob hs"
| "new_handler env UploadAclHandler r c ob hs = MultiUpload_init env UploadAclHandler r c ob hs"
| "new_handler env PartAclHandler r c ob hs = Part_init env PartAclHandler r c ob hs"
| "new_handler env k r c ob hs = Inr (Base_init k r c ob hs)"

subsection \<open>The generic check, \<open>_handle_acl\<close>\<close>

text \<open>
  \<open>p_handle_acl\<close> is the method \<open>_handle_acl(app, sw_method, container, obj, permission,
  headers)\<close> (an Isabelle name cannot start with an underscore). It returns the response
  when \<open>sw_method\<close> is \<open>'HEAD'\<close> and \<open>None\<close> otherwise. \<open>resolve\<close> is its lookup step:
  the resource kind and the permission after the table was consulted.
\<close>

definition resolve :: "string \<Rightarrow> string \<Rightarrow> string \<Rightarrow> pystr \<Rightarrow> string \<times> pystr" where
  "resolve self_method sw_method resource perm =
     (if \<not> truthy perm
      then (case ACL_MAP (self_method, sw_method, resource) of
              Some acl_check \<Rightarrow>
                ((if truthy (Resource acl_check) then the (Resource acl_check) else resource),
                 Some (Permission acl_check))
            | None \<Rightarrow> (resource, perm))
      else (resource, perm))"

definition p_handle_acl ::
  "collab \<Rightarrow> handler \<Rightarrow> string \<Rightarrow> pystr \<Rightarrow> pystr \<Rightarrow> pystr \<Rightarrow> headers option
     \<Rightarrow> resp option run" where
  "p_handle_acl env self sw_method_arg container_arg obj_arg permission_arg headers_arg r =
     (let container_v = (case container_arg of None \<Rightarrow> container self | Some x \<Rightarrow> Some x);
          obj_v = (case obj_arg of None \<Rightarrow> obj self | Some x \<Rightarrow> Some x);
          sw_method = (if sw_method_arg \<noteq> [] then sw_method_arg else REQUEST_METHOD r);
          resource_v = (if truthy obj_v then ''object'' else ''container'');
          headers_v = (case headers_arg of None \<Rightarrow> h_headers self | Some x \<Rightarrow> x)
      in
      if \<not> truthy container_v then (Inr None, r)
      else
        (case resolve (h_method self) sw_method resource_v permission_arg of
           (resource, perm) \<Rightarrow>
             if \<not> truthy perm
             then (Inl (PyException ''No permission to be checked exists''), r)
             else
               (case (if resource = ''object''
                      then (case get_acl_response env ''HEAD'' container_v obj_v (Some headers_v) r of
                              (Inl e, r1) \<Rightarrow> (Inl e, r1)
                            | (Inr rsp, r1) \<Rightarrow> (Inr (rsp, object_acl rsp), r1))
                      else if resource = ''container''
                      then (case get_acl_response env ''HEAD'' container_v (Some []) None r of
                              (Inl e, r1) \<Rightarrow> (Inl e, r1)
                            | (Inr rsp, r1) \<Rightarrow> (Inr (rsp, bucket_acl rsp), r1))
                      else (Inl UnboundLocalError, r)) of
                  (Inl e, r1) \<Rightarrow> (Inl e, r1)
                | (Inr (rsp, None), r1) \<Rightarrow> (Inl AttributeError, r1)
                | (Inr (rsp, Some acl), r1) \<Rightarrow>
                    (case check_permission env acl (h_user_id self) (the perm) of
                       Inl e \<Rightarrow> (Inl e, r1)
                     | Inr u \<Rightarrow>
                         (if sw_method = ''HEAD'' then (Inr (Some rsp), r1)
                          else (Inr None, r1))))))"

subsection \<open>The methods of the handler classes\<close>

text \<open>A method whose body ends without \<open>return\<close> drops the value of its last call and
  returns \<open>None\<close>; an exception of that call goes through.\<close>

definition returning_None :: "(error + 'a) \<times> request \<Rightarrow> (error + resp option) \<times> request" where
  "returning_None x = (case x of (Inl e, r) \<Rightarrow> (Inl e, r) | (Inr v, r) \<Rightarrow> (Inr None, r))"

text \<open>\<open>BucketAclHandler.PUT\<close>.\<close>

definition Bucket_PUT :: "collab \<Rightarrow> handler \<Rightarrow> resp option run" where
  "Bucket_PUT env self r =
     (case from_headers env (req_headers r)
             \<lparr>id' = h_user_id self, name = h_user_id self\<rparr> None True of
        Inl e \<Rightarrow> (Inl e, r)
      | Inr req_acl \<Rightarrow>
          (case get_acl_response env ''PUT'' None None None r of
             (Inl e, r1) \<Rightarrow> (Inl e, r1)
           | (Inr created, r1) \<Rightarrow>
               (let r2 = r1\<lparr>req_bucket_acl := req_acl,
                            trace := trace r1 @ [SetBucketAcl req_acl]\<rparr> in
                case get_acl_response env ''POST'' None None None r2 of
                  (Inl e, r3) \<Rightarrow> (Inl e, r3)
                | (Inr rsp, r3) \<Rightarrow> (Inr (Some rsp), r3))))"

text \<open>\<open>ObjectAclHandler.PUT\<close>.\<close>

definition Object_PUT :: "collab \<Rightarrow> handler \<Rightarrow> resp option run" where
  "Object_PUT env self r =
     (case p_handle_acl env self ''HEAD'' None (Some []) None None r of
        (Inl e, r1) \<Rightarrow> (Inl e, r1)
      | (Inr None, r1) \<Rightarrow> (Inl AttributeError, r1)
      | (Inr (Some b_resp), r1) \<Rightarrow>
          (case bucket_acl b_resp of
             None \<Rightarrow> (Inl AttributeError, r1)
           | Some bacl \<Rightarrow>
               (case from_headers env (req_headers r1) (owner bacl)
                       (Some \<lparr>id' = h_user_id self, name = h_user_id self\<rparr>) True of
                  Inl e \<Rightarrow> (Inl e, r1)
                | Inr req_acl \<Rightarrow>
                    (Inr None, r1\<lparr>req_object_acl := req_acl,
                                  trace := trace r1 @ [SetObjectAcl req_acl]\<rparr>))))"

text \<open>\<open>S3AclHandler.GET\<close>, \<open>PUT\<close> and \<open>POST\<close>. The arguments of \<open>get_acl\<close> are
  evaluated left to right: the headers, the body, the bucket owner, the object owner.\<close>

definition S3Acl_GET :: "collab \<Rightarrow> handler \<Rightarrow> resp option run" where
  "S3Acl_GET env self r =
     returning_None (p_handle_acl env self ''HEAD'' None None (Some ''READ_ACP'') None r)"

definition S3Acl_PUT :: "collab \<Rightarrow> handler \<Rightarrow> resp option run" where
  "S3Acl_PUT env self r =
     (if is_object_request r then
        (case get_acl_response env ''HEAD'' None (Some []) None r of
           (Inl e, r1) \<Rightarrow> (Inl e, r1)
         | (Inr b_resp, r1) \<Rightarrow>
         (case p_handle_acl env self ''HEAD'' None None (Some ''WRITE_ACP'') None r1 of
           (Inl e, r2) \<Rightarrow> (Inl e, r2)
         | (Inr o_resp, r2) \<Rightarrow>
         (case xml r2 of
           Inl e \<Rightarrow> (Inl e, r2)
         | Inr body \<Rightarrow>
         (case bucket_acl b_resp of
           None \<Rightarrow> (Inl AttributeError, r2)
         | Some bacl \<Rightarrow>
         (case o_resp of
           None \<Rightarrow> (Inl AttributeError, r2)
         | Some o_rsp \<Rightarrow>
         (case object_acl o_rsp of
           None \<Rightarrow> (Inl AttributeError, r2)
         | Some oacl \<Rightarrow>
         (case get_acl env (req_headers r2) body (owner bacl) (Some (owner oacl)) of
           Inl e \<Rightarrow> (Inl e, r2)
         | Inr req_acl \<Rightarrow>
         (case check_owner oacl (id' (owner req_acl)) of
           Inl e \<Rightarrow> (Inl e, r2)
         | Inr u \<Rightarrow>
             (Inr None, r2\<lparr>req_object_acl := Some req_acl,
                           trace := trace r2 @ [SetObjectAcl (Some req_acl)]\<rparr>)))))))))
      else returning_None (p_handle_acl env self (h_method self) None None None None r))"

definition S3Acl_POST :: "collab \<Rightarrow> handler \<Rightarrow> resp option run" where
  "S3Acl_POST env self r =
     (if is_bucket_request r then
        (case p_handle_acl env self ''HEAD'' None None (Some ''WRITE_ACP'') None r of
           (Inl e, r1) \<Rightarrow> (Inl e, r1)
         | (Inr rsp_v, r1) \<Rightarrow>
         (case xml r1 of
           Inl e \<Rightarrow> (Inl e, r1)
         | Inr body \<Rightarrow>
         (case rsp_v of
           None \<Rightarrow> (Inl AttributeError, r1)
         | Some rsp \<Rightarrow>
         (case bucket_acl rsp of
           None \<Rightarrow> (Inl AttributeError, r1)
         | Some bacl \<Rightarrow>
         (case get_acl env (req_headers r1) body (owner bacl) None of
           Inl e \<Rightarrow> (Inl e, r1)
         | Inr req_acl \<Rightarrow>
         (case check_owner bacl (id' (owner req_acl)) of
           Inl e \<Rightarrow> (Inl e, r1)
         | Inr u \<Rightarrow>
             (Inr None, r1\<lparr>req_bucket_acl := Some req_acl,
                           trace := trace r1 @ [SetBucketAcl (Some req_acl)]\<rparr>)))))))
      else returning_None (p_handle_acl env self (h_method self) None None None None r))"

text \<open>\<open>MultiObjectDeleteAclHandler.DELETE\<close>: \<open>pass\<close>.\<close>

definition MultiObjectDelete_DELETE :: "collab \<Rightarrow> handler \<Rightarrow> resp option run" where
  "MultiObjectDelete_DELETE env self r = (Inr None, r)"

text \<open>The methods of the multipart-upload family.\<close>

definition MultiUpload_HEAD :: "collab \<Rightarrow> handler \<Rightarrow> resp option run" where
  "MultiUpload_HEAD env self r =
     returning_None (p_handle_acl env self ''HEAD'' (container self) (Some []) None None r)"

definition Part_HEAD :: "collab \<Rightarrow> handler \<Rightarrow> resp option run" where
  "Part_HEAD env self r =
     (if check_copy_src self
      then p_handle_acl env self ''HEAD'' (container self) (obj self) None None r
      else returning_None
             (p_handle_acl env self ''HEAD'' (container self) (Some []) None None r))"

definition Uploads_GET :: "collab \<Rightarrow> handler \<Rightarrow> resp option run" where
  "Uploads_GET env self r =
     returning_None (p_handle_acl env self ''GET'' (container self) (Some []) None None r)"

definition Uploads_PUT :: "collab \<Rightarrow> handler \<Rightarrow> resp option run" where
  "Uploads_PUT env self r =
     (if \<not> truthy (obj self)
      then returning_None (p_handle_acl env self ''PUT'' (container self) None None None r)
      else (Inr None, r))"

definition Upload_HEAD :: "collab \<Rightarrow> handler \<Rightarrow> resp option run" where
  "Upload_HEAD env self r =
     (let m = (if h_method self = ''GET'' then ''GET'' else ''HEAD'') in
      returning_None (p_handle_acl env self m (container self) (Some []) None None r))"

subsection \<open>Dispatch: \<open>handle_acl\<close>\<close>

text \<open>
  \<open>getattr_of k m\<close> is what \<open>hasattr\<close> and \<open>getattr\<close> find under the name \<open>m\<close> on an
  instance of the class \<open>k\<close>: a verb method that the class defines or inherits, another
  attribute, or nothing. The other attributes are the instance attributes that the
  constructors set and the methods \<open>handle_acl\<close> and \<open>_handle_acl\<close>; calling one of
  them with the single argument \<open>app\<close> is a \<open>TypeError\<close>. Names of the form \<open>__x__\<close> are
  the special attributes that a Python object inherits from \<open>object\<close> (\<open>__init__\<close>,
  \<open>__class__\<close>, ...); none of them is a verb. The table counts every name of that
  form as another attribute: it does not tell the names that \<open>object\<close> defines from
  those it does not, and it does not follow what calling each of them does. Any
  other name, \<open>__x\<close> included, is no attribute.
\<close>

datatype attr = Verb "collab \<Rightarrow> handler \<Rightarrow> resp option run" | NotAVerb

definition other_attribute :: "handler_class \<Rightarrow> string \<Rightarrow> bool" where
  "other_attribute k m =
     (m \<in> set [''req'', ''container'', ''obj'', ''method'', ''user_id'', ''headers'',
                ''handle_acl'', ''_handle_acl'']
      \<or> (k = PartAclHandler \<and> m = ''check_copy_src'')
      \<or> (4 < length m \<and> take 2 m = ''__'' \<and> endswith m ''__''))"

fun verb_method :: "handler_class \<Rightarrow> string \<Rightarrow> (collab \<Rightarrow> handler \<Rightarrow> resp option run) option" where
  "verb_method BaseAclHandler m = None"
| "verb_method BucketAclHandler m = (if m = ''PUT'' then Some Bucket_PUT else None)"
| "verb_method ObjectAclHandler m = (if m = ''PUT'' then Some Object_PUT else None)"
| "verb_method S3AclHandler m =
     (if m = ''GET'' then Some S3Acl_GET
      else if m = ''PUT'' then Some S3Acl_PUT
      else if m = ''POST'' then Some S3Acl_POST
      else None)"
| "verb_method MultiObjectDeleteAclHandler m =
     (if m = ''DELETE'' then Some MultiObjectDelete_DELETE else None)"
| "verb_method MultiUploadAclHandler m = (if m = ''HEAD'' then Some MultiUpload_HEAD else None)"
| "verb_method PartAclHandler m = (if m = ''HEAD'' then Some Part_HEAD else None)"
| "verb_method UploadsAclHandler m =
     (if m = ''GET'' then Some Uploads_GET
      else if m = ''PUT'' then Some Uploads_PUT
      else if m = ''HEAD'' then Some MultiUpload_HEAD
      else None)"
| "verb_method UploadAclHandler m = (if m = ''HEAD'' then Some Upload_HEAD else None)"

definition getattr_of :: "handler_class \<Rightarrow> string \<Rightarrow> attr option" where
  "getattr_of k m =
     (case verb_method k m of
        Some f \<Rightarrow> Some (Verb f)
      | None \<Rightarrow> (if other_attribute k m then Some NotAVerb else None))"

text \<open>\<open>BaseAclHandler.handle_acl\<close>.\<close>

definition Base_handle_acl :: "collab \<Rightarrow> handler \<Rightarrow> pystr \<Rightarrow> resp option run" where
  "Base_handle_acl env self method_arg r =
     (let m = (if truthy method_arg then the method_arg else h_method self) in
      case getattr_of (cls self) m of
        Some (Verb f) \<Rightarrow> f env self r
      | Some NotAVerb \<Rightarrow> (Inl TypeError, r)
      | None \<Rightarrow> p_handle_acl env self m None None None None r)"

text \<open>\<open>MultiUploadAclHandler.handle_acl\<close>: without a method for the verb, \<open>pass\<close>.\<close>

definition MultiUpload_handle_acl :: "collab \<Rightarrow> handler \<Rightarrow> pystr \<Rightarrow> resp option run" where
  "MultiUpload_handle_acl env self method_arg r =
     (let m = (if truthy method_arg then the method_arg else h_method self) in
      case getattr_of (cls self) m of
        Some (Verb f) \<Rightarrow> f env self r
      | Some NotAVerb \<Rightarrow> (Inl TypeError, r)
      | None \<Rightarrow> (Inr None, r))"

text \<open>The classes that are \<open>MultiUploadAclHandler\<close> or inherit from it.\<close>

fun multiupload_family :: "handler_class \<Rightarrow> bool" where
  "multiupload_family MultiUploadAclHandler = True"
| "multiupload_family PartAclHandler = True"
| "multiupload_family UploadsAclHandler = True"
| "multiupload_family UploadAclHandler = True"
| "multiupload_family k = False"

text \<open>\<open>handler.handle_acl(app, method)\<close>, resolved by the class of the instance.\<close>

definition handle_acl :: "collab \<Rightarrow> handler \<Rightarrow> pystr \<Rightarrow> resp option run" where
  "handle_acl env self method_arg r =
     (if multiupload_family (cls self)
      then MultiUpload_handle_acl env self method_arg r
      else Base_handle_acl env self method_arg r)"

subsection \<open>A concrete scenario\<close>

text \<open>
  Two users, a backend that answers every call with ACLs owned by \<open>alice\<close>, an ACL class
  that reads the canned ACL \<open>private\<close> from the header \<open>x-amz-acl\<close> and the owner of
  an ACL document from between its \<open>ID\<close> tags, and the suffix \<open>+segments\<close>. The
  theorems below are run on it.
\<close>

definition alice :: Owner where
  "alice = \<lparr>id' = ''alice'', name = ''alice''\<rparr>"

definition bob :: Owner where
  "bob = \<lparr>id' = ''bob'', name = ''bob''\<rparr>"

definition acl_of :: "Owner \<Rightarrow> ACL" where
  "acl_of u = \<lparr>owner = u, grants = []\<rparr>"

definition ex_from_headers :: "headers \<Rightarrow> Owner \<Rightarrow> Owner option \<Rightarrow> bool \<Rightarrow> error + ACL option" where
  "ex_from_headers hs bucket_owner object_owner as_private =
     (let own = (case object_owner of None \<Rightarrow> bucket_owner | Some u \<Rightarrow> u) in
      case map_of hs ''x-amz-acl'' of
        Some v \<Rightarrow> (if v = ''private'' then Inr (Some (acl_of own)) else Inl (OtherError ''InvalidArgument''))
      | None \<Rightarrow> (if as_private then Inr (Some (acl_of own)) else Inr None))"

definition ex_from_body :: "string \<Rightarrow> error + ACL" where
  "ex_from_body b =
     (if b = ''<ID>alice</ID>'' then Inr (acl_of alice)
      else if b = ''<ID>bob</ID>'' then Inr (acl_of bob)
      else Inl XMLSyntaxError)"

definition ex_check_permission :: "ACL \<Rightarrow> string \<Rightarrow> string \<Rightarrow> error + unit" where
  "ex_check_permission acl uid perm =
     (if uid = id' (owner acl) then Inr () else Inl AccessDenied)"

definition ex_env :: collab where
  "ex_env =
     \<lparr> from_headers = ex_from_headers,
       from_body = ex_from_body,
       check_permission = ex_check_permission,
       backend = (\<lambda>r m c ob hs.
          Inr \<lparr>bucket_acl = Some (acl_of alice), object_acl = Some (acl_of alice)\<rparr>),
       MULTIUPLOAD_SUFFIX = ''+segments'' \<rparr>"

text \<open>A backend on which the bucket exists already: creating it fails.\<close>

definition ex_env_exists :: collab where
  "ex_env_exists =
     ex_env\<lparr>backend := (\<lambda>r m c ob hs.
        if m = ''PUT'' then Inl (OtherError ''BucketAlreadyExists'')
        else Inr \<lparr>bucket_acl = Some (acl_of alice), object_acl = Some (acl_of alice)\<rparr>)\<rparr>"

definition ex_req :: "string \<Rightarrow> pystr \<Rightarrow> pystr \<Rightarrow> request" where
  "ex_req verb c ob =
     \<lparr> container_name = c,
       object_name = ob,
       user_id = ''alice'',
       req_headers = [],
       REQUEST_METHOD = verb,
       is_object_request = truthy ob,
       is_bucket_request = (truthy c \<and> \<not> truthy ob),
       xml = Inr (Some ''<ID>bob</ID>''),
       req_bucket_acl = None,
       req_object_acl = None,
       trace = [] \<rparr>"

text \<open>A handler as \<open>BaseAclHandler.__init__\<close> builds it for such a request, with no
  argument overridden.\<close>

definition ex_handler :: "handler_class \<Rightarrow> string \<Rightarrow> pystr \<Rightarrow> pystr \<Rightarrow> handler" where
  "ex_handler k verb c ob = Base_init k (ex_req verb c ob) None None None"

text \<open>The handler that \<open>UploadAclHandler\<close> builds for a \<open>DELETE\<close> on the upload
  \<open>key\<close> in the container \<open>bucket+segments\<close>.\<close>

definition ex_upload_handler :: handler where
  "ex_upload_handler =
     (ex_handler UploadAclHandler ''DELETE'' (Some ''bucket+segments'') (Some ''key''))
       \<lparr>container := Some ''bucket''\<rparr>"

section \<open>Properties\<close>

subsection \<open>The permission table\<close>

lemma ACL_MAP_keys:
  "map fst ACL_MAP_items =
    [ (''HEAD'', ''HEAD'', ''container''), (''GET'', ''HEAD'', ''container''),
      (''GET'', ''GET'', ''container''), (''PUT'', ''HEAD'', ''container''),
      (''DELETE'', ''DELETE'', ''container''), (''HEAD'', ''HEAD'', ''object''),
      (''GET'', ''GET'', ''object''), (''PUT'', ''HEAD'', ''object''),
      (''POST'', ''PUT'', ''container''), (''DELETE'', ''HEAD'', ''container''),
      (''DELETE'', ''DELETE'', ''object''), (''POST'', ''HEAD'', ''container'') ]"
  by (simp add: ACL_MAP_items_def)

lemma ACL_MAP_keys_distinct: "distinct (map fst ACL_MAP_items)"
  unfolding ACL_MAP_keys by simp

text \<open>
  Claim C1. Each of the twelve (incoming verb, backend verb, resource kind) triples of the
  checkpoint table is a key of \<open>ACL_MAP\<close> and maps to the documented permission; the
  entry for deleting an object, and no other, carries the resource override
  \<open>'container'\<close>; and the table has no other key.
\<close>

theorem ACL_MAP_checkpoint_table:
  "ACL_MAP (''HEAD'', ''HEAD'', ''container'') = Some \<lparr>Resource = None, Permission = ''READ''\<rparr>
   \<and> ACL_MAP (''GET'', ''HEAD'', ''container'') = Some \<lparr>Resource = None, Permission = ''OWNER''\<rparr>
   \<and> ACL_MAP (''GET'', ''GET'', ''container'') = Some \<lparr>Resource = None, Permission = ''READ''\<rparr>
   \<and> ACL_MAP (''PUT'', ''HEAD'', ''container'') = Some \<lparr>Resource = None, Permission = ''WRITE''\<rparr>
   \<and> ACL_MAP (''DELETE'', ''DELETE'', ''container'') = Some \<lparr>Resource = None, Permission = ''OWNER''\<rparr>
   \<and> ACL_MAP (''HEAD'', ''HEAD'', ''object'') = Some \<lparr>Resource = None, Permission = ''READ''\<rparr>
   \<and> ACL_MAP (''GET'', ''GET'', ''object'') = Some \<lparr>Resource = None, Permission = ''READ''\<rparr>
   \<and> ACL_MAP (''PUT'', ''HEAD'', ''object'') = Some \<lparr>Resource = None, Permission = ''READ''\<rparr>
   \<and> ACL_MAP (''POST'', ''PUT'', ''container'') = Some \<lparr>Resource = None, Permission = ''WRITE''\<rparr>
   \<and> ACL_MAP (''DELETE'', ''HEAD'', ''container'') = Some \<lparr>Resource = None, Permission = ''WRITE''\<rparr>
   \<and> ACL_MAP (''DELETE'', ''DELETE'', ''object'')
        = Some \<lparr>Resource = Some ''container'', Permission = ''WRITE''\<rparr>
   \<and> ACL_MAP (''POST'', ''HEAD'', ''container'') = Some \<lparr>Resource = None, Permission = ''WRITE''\<rparr>
   \<and> dom ACL_MAP =
        { (''HEAD'', ''HEAD'', ''container''), (''GET'', ''HEAD'', ''container''),
          (''GET'', ''GET'', ''container''), (''PUT'', ''HEAD'', ''container''),
          (''DELETE'', ''DELETE'', ''container''), (''HEAD'', ''HEAD'', ''object''),
          (''GET'', ''GET'', ''object''), (''PUT'', ''HEAD'', ''object''),
          (''POST'', ''PUT'', ''container''), (''DELETE'', ''HEAD'', ''container''),
          (''DELETE'', ''DELETE'', ''object''), (''POST'', ''HEAD'', ''container'') }"
proof -
  have d: "dom ACL_MAP = set (map fst ACL_MAP_items)"
    by (simp add: ACL_MAP_def dom_map_of_conv_image_fst)
  show ?thesis
    unfolding d ACL_MAP_keys
    by (simp add: ACL_MAP_def ACL_MAP_items_def)
qed

text \<open>
  Claim C5, as the code has it. The table holds twelve mappings: the dict literal has
  twelve entries with pairwise different keys.
\<close>

theorem ACL_MAP_twelve_entries:
  "length ACL_MAP_items = 12 \<and> distinct (map fst ACL_MAP_items) \<and> card (dom ACL_MAP) = 12"
proof -
  have d: "dom ACL_MAP = set (map fst ACL_MAP_items)"
    by (simp add: ACL_MAP_def dom_map_of_conv_image_fst)
  have "card (dom ACL_MAP) = length (map fst ACL_MAP_items)"
    unfolding d using ACL_MAP_keys_distinct by (rule distinct_card)
  moreover have "length ACL_MAP_items = 12"
    by (simp add: ACL_MAP_items_def)
  ultimately show ?thesis
    using ACL_MAP_keys_distinct by simp
qed

text \<open>Claim C5 as the specification words it (eleven mappings) fails on the table.\<close>

theorem ACL_MAP_not_eleven_entries: "card (dom ACL_MAP) \<noteq> 11"
proof -
  have d: "dom ACL_MAP = set (map fst ACL_MAP_items)"
    by (simp add: ACL_MAP_def dom_map_of_conv_image_fst)
  have "card (dom ACL_MAP) = length (map fst ACL_MAP_items)"
    unfolding d using ACL_MAP_keys_distinct by (rule distinct_card)
  then show ?thesis
    by (simp add: ACL_MAP_items_def)
qed

lemma ACL_MAP_items_Resource:
  "\<forall>x \<in> set ACL_MAP_items. Resource (snd x) = None \<or> Resource (snd x) = Some ''container''"
  by (simp add: ACL_MAP_items_def)

lemma ACL_MAP_Resource:
  "ACL_MAP k = Some a \<Longrightarrow> Resource a = None \<or> Resource a = Some ''container''"
proof -
  assume "ACL_MAP k = Some a"
  then have "(k, a) \<in> set ACL_MAP_items"
    unfolding ACL_MAP_def by (rule map_of_SomeD)
  with ACL_MAP_items_Resource show ?thesis by fastforce
qed

lemma resolve_resource:
  "resolve m sw res p = (res', p') \<Longrightarrow> res' = res \<or> res' = ''container''"
  by (auto simp: resolve_def truthy_def split: if_splits option.splits dest: ACL_MAP_Resource)

subsection \<open>\<open>get_acl\<close>\<close>

text \<open>
  Claim C3. When the headers give an ACL and the body is not empty, \<open>get_acl\<close> raises
  \<open>UnexpectedContent\<close>, whatever the parser would make of the body: the body is not
  parsed and no ACL is returned.
\<close>

theorem get_acl_header_and_body:
  "from_headers env hs bucket_owner object_owner False = Inr (Some acl) \<Longrightarrow> truthy body
    \<Longrightarrow> get_acl env hs body bucket_owner object_owner = Inl UnexpectedContent"
  by (simp add: get_acl_def)

theorem get_acl_header_and_body_witness:
  "from_headers ex_env [(''x-amz-acl'', ''private'')] alice None False = Inr (Some (acl_of alice))
   \<and> truthy (Some ''<ID>'')
   \<and> from_body ex_env ''<ID>'' = Inl XMLSyntaxError
   \<and> get_acl ex_env [(''x-amz-acl'', ''private'')] (Some ''<ID>'') alice None
       = Inl UnexpectedContent"
  using get_acl_header_and_body [where env = ex_env and hs = "[(''x-amz-acl'', ''private'')]"
      and bucket_owner = alice and object_owner = None and acl = "acl_of alice"
      and body = "Some ''<ID>''"]
  by (simp add: ex_env_def ex_from_headers_def ex_from_body_def truthy_def)

subsection \<open>The generic check\<close>

text \<open>
  Claim C7. In \<open>_handle_acl\<close>, when the container name is not empty, no permission is
  passed in and \<open>ACL_MAP\<close> has no entry for the triple of the request's verb, the backend
  verb and the resource kind, the check raises \<open>Exception('No permission to be checked
  exists')\<close>; the backend is not called and the request is left as it was.
\<close>

theorem no_permission_is_fatal:
  assumes "truthy (case container_arg of None \<Rightarrow> container self | Some x \<Rightarrow> Some x)"
    and "\<not> truthy permission_arg"
    and "ACL_MAP (h_method self,
                  (if sw \<noteq> [] then sw else REQUEST_METHOD r),
                  (if truthy (case obj_arg of None \<Rightarrow> obj self | Some x \<Rightarrow> Some x)
                   then ''object'' else ''container'')) = None"
  shows "p_handle_acl env self sw container_arg obj_arg permission_arg headers_arg r
           = (Inl (PyException ''No permission to be checked exists''), r)"
  using assms by (simp add: p_handle_acl_def resolve_def Let_def)

theorem no_permission_is_fatal_witness:
  "truthy (container (ex_handler BaseAclHandler ''PUT'' (Some ''bucket'') (Some ''key'')))
   \<and> ACL_MAP (''PUT'', ''PUT'', ''object'') = None
   \<and> p_handle_acl ex_env (ex_handler BaseAclHandler ''PUT'' (Some ''bucket'') (Some ''key''))
        ''PUT'' None None None None (ex_req ''PUT'' (Some ''bucket'') (Some ''key''))
      = (Inl (PyException ''No permission to be checked exists''),
         ex_req ''PUT'' (Some ''bucket'') (Some ''key''))"
  using no_permission_is_fatal [where container_arg = None and obj_arg = None
      and permission_arg = None
      and self = "ex_handler BaseAclHandler ''PUT'' (Some ''bucket'') (Some ''key'')"
      and sw = "''PUT''" and r = "ex_req ''PUT'' (Some ''bucket'') (Some ''key'')"
      and env = ex_env and headers_arg = None]
  by (simp add: ex_handler_def Base_init_def ex_req_def truthy_def ACL_MAP_def ACL_MAP_items_def)

text \<open>The outcome of the generic check from the probe step on, for each of the two
  resource kinds: the backend is asked once, with \<open>HEAD\<close>; its error, a missing ACL and
  the refusal of \<open>check_permission\<close> end the check.\<close>

lemma probe_container:
  assumes "truthy cv" and "resolve (h_method self) sw' rv permission_arg = (''container'', perm)"
    and "truthy perm"
    and "cv = (case container_arg of None \<Rightarrow> container self | Some x \<Rightarrow> Some x)"
    and "sw' = (if sw \<noteq> [] then sw else REQUEST_METHOD r)"
    and "rv = (if truthy (case obj_arg of None \<Rightarrow> obj self | Some x \<Rightarrow> Some x)
               then ''object'' else ''container'')"
  shows "p_handle_acl env self sw container_arg obj_arg permission_arg headers_arg r
           = ((case backend env r ''HEAD'' cv (Some []) None of
                 Inl e \<Rightarrow> Inl e
               | Inr rsp \<Rightarrow>
                   (case bucket_acl rsp of
                      None \<Rightarrow> Inl AttributeError
                    | Some acl \<Rightarrow>
                        (case check_permission env acl (h_user_id self) (the perm) of
                           Inl e \<Rightarrow> Inl e
                         | Inr u \<Rightarrow> Inr (if sw' = ''HEAD'' then Some rsp else None)))),
              r\<lparr>trace := trace r @ [Call ''HEAD'' cv (Some []) None]\<rparr>)"
  using assms(1,2,3) unfolding assms(4,5,6)
  by (simp add: p_handle_acl_def Let_def get_acl_response_def
           split: sum.split option.split)

lemma probe_object:
  assumes "truthy cv" and "resolve (h_method self) sw' rv permission_arg = (''object'', perm)"
    and "truthy perm"
    and "cv = (case container_arg of None \<Rightarrow> container self | Some x \<Rightarrow> Some x)"
    and "sw' = (if sw \<noteq> [] then sw else REQUEST_METHOD r)"
    and "rv = (if truthy (case obj_arg of None \<Rightarrow> obj self | Some x \<Rightarrow> Some x)
               then ''object'' else ''container'')"
    and "ov = (case obj_arg of None \<Rightarrow> obj self | Some x \<Rightarrow> Some x)"
    and "hv = (case headers_arg of None \<Rightarrow> h_headers self | Some x \<Rightarrow> x)"
  shows "p_handle_acl env self sw container_arg obj_arg permission_arg headers_arg r
           = ((case backend env r ''HEAD'' cv ov (Some hv) of
                 Inl e \<Rightarrow> Inl e
               | Inr rsp \<Rightarrow>
                   (case object_acl rsp of
                      None \<Rightarrow> Inl AttributeError
                    | Some acl \<Rightarrow>
                        (case check_permission env acl (h_user_id self) (the perm) of
                           Inl e \<Rightarrow> Inl e
                         | Inr u \<Rightarrow> Inr (if sw' = ''HEAD'' then Some rsp else None)))),
              r\<lparr>trace := trace r @ [Call ''HEAD'' cv ov (Some hv)]\<rparr>)"
  using assms(1,2,3) unfolding assms(4,5,6,7,8)
  by (simp add: p_handle_acl_def Let_def get_acl_response_def
           split: sum.split option.split)

text \<open>
  Claim C4, as the code has it. A run of \<open>_handle_acl\<close> that reaches the probe step (the
  container name is not empty and a permission is resolved) calls the backend exactly
  once, and always with the verb \<open>HEAD\<close>, whatever \<open>sw_method\<close> is: on the container
  with an empty object name when the resolved resource kind is \<open>container\<close>, on the
  object with the headers otherwise. The check goes on with the answer to that
  \<open>HEAD\<close>: the backend's error is raised; else the ACL of the resolved kind is taken
  from the response and \<open>check_permission\<close> is asked about the user and the resolved
  permission, its error raised; else the check returns, the response when \<open>sw_method\<close>
  is \<open>HEAD\<close> and \<open>None\<close> otherwise.
\<close>

theorem probe_uses_HEAD:
  assumes "truthy cv" and "resolve (h_method self) sw' rv permission_arg = (resource, perm)"
    and "truthy perm"
    and "cv = (case container_arg of None \<Rightarrow> container self | Some x \<Rightarrow> Some x)"
    and "sw' = (if sw \<noteq> [] then sw else REQUEST_METHOD r)"
    and "rv = (if truthy (case obj_arg of None \<Rightarrow> obj self | Some x \<Rightarrow> Some x)
               then ''object'' else ''container'')"
    and "ov = (if resource = ''object''
               then (case obj_arg of None \<Rightarrow> obj self | Some x \<Rightarrow> Some x) else Some [])"
    and "hv = (if resource = ''object''
               then Some (case headers_arg of None \<Rightarrow> h_headers self | Some x \<Rightarrow> x) else None)"
  shows "p_handle_acl env self sw container_arg obj_arg permission_arg headers_arg r
           = ((case backend env r ''HEAD'' cv ov hv of
                 Inl e \<Rightarrow> Inl e
               | Inr rsp \<Rightarrow>
                   (case (if resource = ''object'' then object_acl rsp else bucket_acl rsp) of
                      None \<Rightarrow> Inl AttributeError
                    | Some acl \<Rightarrow>
                        (case check_permission env acl (h_user_id self) (the perm) of
                           Inl e \<Rightarrow> Inl e
                         | Inr u \<Rightarrow> Inr (if sw' = ''HEAD'' then Some rsp else None)))),
              r\<lparr>trace := trace r @ [Call ''HEAD'' cv ov hv]\<rparr>)"
proof -
  from assms(2) have "resource = rv \<or> resource = ''container''"
    by (rule resolve_resource)
  then consider "resource = ''object''" | "resource = ''container''"
    unfolding assms(6) by (auto split: if_splits)
  then show ?thesis
  proof cases
    case 1
    with assms(2) have "resolve (h_method self) sw' rv permission_arg = (''object'', perm)"
      by simp
    from probe_object [OF assms(1) this assms(3,4,5,6) refl refl]
    show ?thesis unfolding assms(7,8) 1 by (simp cong: sum.case_cong)
  next
    case 2
    with assms(2) have "resolve (h_method self) sw' rv permission_arg = (''container'', perm)"
      by simp
    from probe_container [OF assms(1) this assms(3,4,5,6)]
    show ?thesis unfolding assms(7,8) 2 by (simp cong: sum.case_cong)
  qed
qed

text \<open>Two runs of it: a \<open>DELETE\<close> of an object, checked on the container and returning
  nothing, and a \<open>HEAD\<close> of an object, checked on the object and returning the
  response. Both ask the backend with \<open>HEAD\<close>.\<close>

theorem probe_uses_HEAD_witness:
  "truthy (Some ''bucket'')
   \<and> resolve ''DELETE'' ''DELETE'' ''object'' None = (''container'', Some ''WRITE'')
   \<and> truthy (Some ''WRITE'')
   \<and> p_handle_acl ex_env
        (ex_handler BaseAclHandler ''DELETE'' (Some ''bucket'') (Some ''key''))
        ''DELETE'' None None None None (ex_req ''DELETE'' (Some ''bucket'') (Some ''key''))
      = (Inr None,
         (ex_req ''DELETE'' (Some ''bucket'') (Some ''key''))
           \<lparr>trace := [Call ''HEAD'' (Some ''bucket'') (Some []) None]\<rparr>)
   \<and> resolve ''HEAD'' ''HEAD'' ''object'' None = (''object'', Some ''READ'')
   \<and> truthy (Some ''READ'')
   \<and> p_handle_acl ex_env
        (ex_handler BaseAclHandler ''HEAD'' (Some ''bucket'') (Some ''key''))
        ''HEAD'' None None None None (ex_req ''HEAD'' (Some ''bucket'') (Some ''key''))
      = (Inr (Some \<lparr>bucket_acl = Some (acl_of alice), object_acl = Some (acl_of alice)\<rparr>),
         (ex_req ''HEAD'' (Some ''bucket'') (Some ''key''))
           \<lparr>trace := [Call ''HEAD'' (Some ''bucket'') (Some ''key'') (Some [])]\<rparr>)"
  using probe_uses_HEAD [where cv = "Some ''bucket''" and sw' = "''DELETE''" and rv = "''object''"
      and permission_arg = None and resource = "''container''" and perm = "Some ''WRITE''"
      and self = "ex_handler BaseAclHandler ''DELETE'' (Some ''bucket'') (Some ''key'')"
      and container_arg = None and obj_arg = None and headers_arg = None and sw = "''DELETE''"
      and r = "ex_req ''DELETE'' (Some ''bucket'') (Some ''key'')" and env = ex_env
      and ov = "Some []" and hv = None]
    probe_uses_HEAD [where cv = "Some ''bucket''" and sw' = "''HEAD''" and rv = "''object''"
      and permission_arg = None and resource = "''object''" and perm = "Some ''READ''"
      and self = "ex_handler BaseAclHandler ''HEAD'' (Some ''bucket'') (Some ''key'')"
      and container_arg = None and obj_arg = None and headers_arg = None and sw = "''HEAD''"
      and r = "ex_req ''HEAD'' (Some ''bucket'') (Some ''key'')" and env = ex_env
      and ov = "Some ''key''" and hv = "Some []"]
  by (simp add: ex_handler_def Base_init_def ex_req_def truthy_def resolve_def
        ACL_MAP_def ACL_MAP_items_def ex_env_def ex_check_permission_def acl_of_def alice_def)

text \<open>Claim C4 as the specification words it fails: with the backend verb \<open>GET\<close> the
  probe is a \<open>HEAD\<close>, not a \<open>GET\<close>.\<close>

theorem probe_with_GET_counterexample:
  "trace (snd (p_handle_acl ex_env (ex_handler BaseAclHandler ''GET'' (Some ''bucket'') None)
        ''GET'' None None None None (ex_req ''GET'' (Some ''bucket'') None)))
     = [Call ''HEAD'' (Some ''bucket'') (Some []) None]
   \<and> trace (snd (p_handle_acl ex_env (ex_handler BaseAclHandler ''GET'' (Some ''bucket'') None)
        ''GET'' None None None None (ex_req ''GET'' (Some ''bucket'') None)))
     \<noteq> [Call ''GET'' (Some ''bucket'') (Some []) None]"
  by (simp add: p_handle_acl_def Let_def get_acl_response_def ex_handler_def Base_init_def
        ex_req_def truthy_def resolve_def ACL_MAP_def ACL_MAP_items_def ex_env_def
        ex_check_permission_def acl_of_def alice_def)

subsection \<open>The constructors of the multipart-upload family\<close>

lemma slice_to_minus_append: "sfx \<noteq> [] \<Longrightarrow> slice_to_minus (b @ sfx) (length sfx) = b"
  by (simp add: slice_to_minus_def)

lemma endswith_iff: "endswith s sfx \<longleftrightarrow> (\<exists>p. s = p @ sfx)"
proof
  assume "endswith s sfx"
  then have "s = take (length s - length sfx) s @ sfx"
    by (metis append_take_drop_id endswith_def)
  then show "\<exists>p. s = p @ sfx" ..
next
  assume "\<exists>p. s = p @ sfx"
  then show "endswith s sfx" by (auto simp: endswith_def)
qed

lemma MultiUpload_init_container:
  assumes "(case c of None \<Rightarrow> container_name r | Some x \<Rightarrow> Some x) = Some s"
  shows "\<exists>h. MultiUpload_init env k r c ob hs = Inr h
           \<and> container h = Some (slice_to_minus s (length (MULTIUPLOAD_SUFFIX env)))
           \<and> \<not> check_copy_src h \<and> cls h = k"
  using assms by (simp add: MultiUpload_init_def Base_init_def Let_def)

lemma Part_init_container:
  assumes "(case c of None \<Rightarrow> container_name r | Some x \<Rightarrow> Some x) = Some s"
  shows "\<exists>h. Part_init env k r c ob hs = Inr h \<and> cls h = k
           \<and> container h = Some (if endswith s (MULTIUPLOAD_SUFFIX env)
                                  then slice_to_minus s (length (MULTIUPLOAD_SUFFIX env)) else s)
           \<and> check_copy_src h = (\<not> endswith s (MULTIUPLOAD_SUFFIX env))"
  using assms by (simp add: Part_init_def Base_init_def Let_def)

text \<open>
  Claim C9. Let the suffix \<open>MULTIUPLOAD_SUFFIX\<close> be a non-empty string. Constructing a
  handler of the multipart-upload family (\<open>MultiUploadAclHandler\<close>, \<open>PartAclHandler\<close>,
  \<open>UploadsAclHandler\<close>, \<open>UploadAclHandler\<close>) with the container name \<open>b + suffix\<close>,
  passed as an argument or taken from the request, succeeds and sets the handler's
  container to exactly \<open>b\<close>. The suffix is stripped once: for \<open>b = b' + suffix\<close> the
  container is \<open>b' + suffix\<close>, not \<open>b'\<close>.
\<close>

theorem multiupload_container_strips_suffix:
  assumes "MULTIUPLOAD_SUFFIX env \<noteq> []" and "multiupload_family k"
    and "(case c of None \<Rightarrow> container_name r | Some x \<Rightarrow> Some x)
           = Some (b @ MULTIUPLOAD_SUFFIX env)"
  shows "\<exists>h. new_handler env k r c ob hs = Inr h \<and> container h = Some b"
proof (cases "k = PartAclHandler")
  case True
  from Part_init_container [OF assms(3), of env k ob hs] assms(1) True show ?thesis
    by (auto simp: endswith_iff slice_to_minus_append)
next
  case False
  with assms(2) have "new_handler env k r c ob hs = MultiUpload_init env k r c ob hs"
    by (cases k) simp_all
  with MultiUpload_init_container [OF assms(3), of env k ob hs] assms(1) show ?thesis
    by (auto simp: slice_to_minus_append)
qed

theorem multiupload_container_strips_suffix_witness:
  "MULTIUPLOAD_SUFFIX ex_env \<noteq> []
   \<and> multiupload_family UploadAclHandler
   \<and> container_name (ex_req ''DELETE'' (Some ''bucket+segments+segments'') (Some ''key''))
       = Some (''bucket+segments'' @ MULTIUPLOAD_SUFFIX ex_env)
   \<and> (\<exists>h. new_handler ex_env UploadAclHandler
              (ex_req ''DELETE'' (Some ''bucket+segments+segments'') (Some ''key''))
              None None None = Inr h
            \<and> container h = Some ''bucket+segments'')"
  using multiupload_container_strips_suffix [where env = ex_env and k = UploadAclHandler
      and c = None and b = "''bucket+segments''" and ob = None and hs = None
      and r = "ex_req ''DELETE'' (Some ''bucket+segments+segments'') (Some ''key'')"]
  by (simp add: ex_env_def ex_req_def)

text \<open>
  Claim C10. Let the suffix be non-empty and the container name be a string \<open>s\<close>.
  \<open>MultiUploadAclHandler\<close>, \<open>UploadsAclHandler\<close> and \<open>UploadAclHandler\<close> set the
  container to \<open>s\<close> without its last \<open>len(suffix)\<close> characters, whether or not \<open>s\<close> ends
  with the suffix. \<open>PartAclHandler\<close> tests first: when \<open>s\<close> ends with the suffix it is
  stripped and \<open>check_copy_src\<close> is \<open>False\<close>; otherwise the container stays \<open>s\<close> and
  \<open>check_copy_src\<close> is \<open>True\<close>.
\<close>

theorem constructor_containers:
  assumes "MULTIUPLOAD_SUFFIX env \<noteq> []"
    and "(case c of None \<Rightarrow> container_name r | Some x \<Rightarrow> Some x) = Some s"
  shows "(k \<in> {MultiUploadAclHandler, UploadsAclHandler, UploadAclHandler} \<longrightarrow>
            (\<exists>h. new_handler env k r c ob hs = Inr h
                \<and> container h = Some (take (length s - length (MULTIUPLOAD_SUFFIX env)) s)))
       \<and> (\<exists>h. new_handler env PartAclHandler r c ob hs = Inr h
             \<and> (if \<exists>p. s = p @ MULTIUPLOAD_SUFFIX env
                then container h = Some (take (length s - length (MULTIUPLOAD_SUFFIX env)) s)
                     \<and> \<not> check_copy_src h
                else container h = Some s \<and> check_copy_src h))"
proof (intro conjI impI)
  assume "k \<in> {MultiUploadAclHandler, UploadsAclHandler, UploadAclHandler}"
  then have "new_handler env k r c ob hs = MultiUpload_init env k r c ob hs"
    by auto
  with MultiUpload_init_container [OF assms(2), of env k ob hs] assms(1)
  show "\<exists>h. new_handler env k r c ob hs = Inr h
           \<and> container h = Some (take (length s - length (MULTIUPLOAD_SUFFIX env)) s)"
    by (auto simp: slice_to_minus_def)
next
  from Part_init_container [OF assms(2), of env PartAclHandler ob hs] assms(1)
  show "\<exists>h. new_handler env PartAclHandler r c ob hs = Inr h
             \<and> (if \<exists>p. s = p @ MULTIUPLOAD_SUFFIX env
                then container h = Some (take (length s - length (MULTIUPLOAD_SUFFIX env)) s)
                     \<and> \<not> check_copy_src h
                else container h = Some s \<and> check_copy_src h)"
    unfolding endswith_iff [symmetric] by (auto simp: slice_to_minus_def)
qed

theorem constructor_containers_witness:
  "MULTIUPLOAD_SUFFIX ex_env \<noteq> []
   \<and> UploadsAclHandler \<in> {MultiUploadAclHandler, UploadsAclHandler, UploadAclHandler}
   \<and> (\<exists>h. new_handler ex_env UploadsAclHandler
              (ex_req ''PUT'' (Some ''mybucket-data'') (Some ''key''))
              None None None = Inr h
            \<and> container h = Some ''mybu'')
   \<and> (\<exists>h. new_handler ex_env PartAclHandler (ex_req ''PUT'' (Some ''mybucket-data'') (Some ''key''))
              None None None = Inr h
            \<and> container h = Some ''mybucket-data'' \<and> check_copy_src h)"
  using constructor_containers [where env = ex_env and k = UploadsAclHandler and c = None
      and s = "''mybucket-data''" and ob = None and hs = None
      and r = "ex_req ''PUT'' (Some ''mybucket-data'') (Some ''key'')"]
  by (simp add: ex_env_def ex_req_def MultiUpload_init_def Part_init_def Base_init_def
        slice_to_minus_def endswith_def)

subsection \<open>Bucket creation\<close>

text \<open>
  Claim C6. \<open>BucketAclHandler.PUT\<close> reads the requested ACL from the headers, then
  issues the backend \<open>PUT\<close> (the create), then assigns \<open>req.bucket_acl\<close>, then issues the
  backend \<open>POST\<close>, in this order. When the headers are rejected nothing happens; when the
  create fails its exception goes through, \<open>req.bucket_acl\<close> is unchanged and no \<open>POST\<close>
  is issued, so the ACL of a bucket that exists already is not overwritten.
\<close>

theorem Bucket_PUT_create_before_acl:
  assumes "Bucket_PUT env self r = (res, r')"
    and "own = \<lparr>id' = h_user_id self, name = h_user_id self\<rparr>"
  shows "(\<forall>e. from_headers env (req_headers r) own None True = Inl e \<longrightarrow>
            res = Inl e \<and> r' = r)
       \<and> (\<forall>a e. from_headers env (req_headers r) own None True = Inr a
                 \<and> backend env r ''PUT'' None None None = Inl e \<longrightarrow>
            res = Inl e
            \<and> trace r' = trace r @ [Call ''PUT'' None None None]
            \<and> req_bucket_acl r' = req_bucket_acl r)
       \<and> (\<forall>a created. from_headers env (req_headers r) own None True = Inr a
                 \<and> backend env r ''PUT'' None None None = Inr created \<longrightarrow>
            trace r' = trace r @ [Call ''PUT'' None None None, SetBucketAcl a,
                                  Call ''POST'' None None None]
            \<and> req_bucket_acl r' = a)"
  using assms(1) unfolding assms(2)
  by (auto simp: Bucket_PUT_def get_acl_response_def Let_def split: sum.splits)

theorem Bucket_PUT_create_before_acl_witness:
  "backend ex_env_exists (ex_req ''PUT'' (Some ''bucket'') None) ''PUT'' None None None
       = Inl (OtherError ''BucketAlreadyExists'')
   \<and> fst (Bucket_PUT ex_env_exists (ex_handler BucketAclHandler ''PUT'' (Some ''bucket'') None)
        (ex_req ''PUT'' (Some ''bucket'') None)) = Inl (OtherError ''BucketAlreadyExists'')
   \<and> trace (snd (Bucket_PUT ex_env_exists
        (ex_handler BucketAclHandler ''PUT'' (Some ''bucket'') None)
        (ex_req ''PUT'' (Some ''bucket'') None))) = [Call ''PUT'' None None None]
   \<and> req_bucket_acl (snd (Bucket_PUT ex_env_exists
        (ex_handler BucketAclHandler ''PUT'' (Some ''bucket'') None)
        (ex_req ''PUT'' (Some ''bucket'') None))) = None
   \<and> backend ex_env (ex_req ''PUT'' (Some ''bucket'') None) ''PUT'' None None None
       = Inr \<lparr>bucket_acl = Some (acl_of alice), object_acl = Some (acl_of alice)\<rparr>
   \<and> trace (snd (Bucket_PUT ex_env (ex_handler BucketAclHandler ''PUT'' (Some ''bucket'') None)
        (ex_req ''PUT'' (Some ''bucket'') None)))
       = [Call ''PUT'' None None None, SetBucketAcl (Some (acl_of alice)),
          Call ''POST'' None None None]"
proof -
  let ?h = "ex_handler BucketAclHandler ''PUT'' (Some ''bucket'') None"
  let ?r = "ex_req ''PUT'' (Some ''bucket'') None"
  let ?own = "\<lparr>id' = h_user_id ?h, name = h_user_id ?h\<rparr>"
  have tr: "trace ?r = []" and ba: "req_bucket_acl ?r = None"
    by (simp_all add: ex_req_def)
  have f1: "from_headers ex_env_exists (req_headers ?r) ?own None True
              = Inr (Some (acl_of alice))"
    by (simp add: ex_env_exists_def ex_env_def ex_from_headers_def ex_handler_def
          Base_init_def ex_req_def alice_def)
  have f2: "from_headers ex_env (req_headers ?r) ?own None True = Inr (Some (acl_of alice))"
    by (simp add: ex_env_def ex_from_headers_def ex_handler_def Base_init_def ex_req_def
          alice_def)
  have b1: "backend ex_env_exists ?r ''PUT'' None None None
              = Inl (OtherError ''BucketAlreadyExists'')"
    by (simp add: ex_env_exists_def)
  have b2: "backend ex_env ?r ''PUT'' None None None
              = Inr \<lparr>bucket_acl = Some (acl_of alice), object_acl = Some (acl_of alice)\<rparr>"
    by (simp add: ex_env_def)
  have e1: "Bucket_PUT ex_env_exists ?h ?r
              = (fst (Bucket_PUT ex_env_exists ?h ?r), snd (Bucket_PUT ex_env_exists ?h ?r))"
    by simp
  have e2: "Bucket_PUT ex_env ?h ?r
              = (fst (Bucket_PUT ex_env ?h ?r), snd (Bucket_PUT ex_env ?h ?r))"
    by simp
  from Bucket_PUT_create_before_acl [OF e1 refl] f1 b1
  have c1: "fst (Bucket_PUT ex_env_exists ?h ?r) = Inl (OtherError ''BucketAlreadyExists'')
      \<and> trace (snd (Bucket_PUT ex_env_exists ?h ?r)) = trace ?r @ [Call ''PUT'' None None None]
      \<and> req_bucket_acl (snd (Bucket_PUT ex_env_exists ?h ?r)) = req_bucket_acl ?r"
    by blast
  from Bucket_PUT_create_before_acl [OF e2 refl] f2 b2
  have c2: "trace (snd (Bucket_PUT ex_env ?h ?r))
      = trace ?r @ [Call ''PUT'' None None None, SetBucketAcl (Some (acl_of alice)),
                    Call ''POST'' None None None]"
    by blast
  from c1 c2 b1 b2 show ?thesis
    unfolding tr ba by simp
qed

subsection \<open>Dispatch\<close>

text \<open>
  Claim C8, as the code has it. Let \<open>m\<close> be the verb passed to \<open>handle_acl\<close>, or the
  request's verb when none is passed. When the handler's class defines or inherits a method
  named \<open>m\<close>, \<open>handle_acl\<close> runs this method. When the instance has no attribute named
  \<open>m\<close>, a handler outside the multipart-upload family runs the generic check with \<open>m\<close>
  as the backend verb, and a handler of the multipart-upload family checks nothing and
  returns \<open>None\<close>.
\<close>

theorem handle_acl_dispatch:
  assumes "m = (if truthy method_arg then the method_arg else h_method self)"
  shows "(\<forall>f. verb_method (cls self) m = Some f \<longrightarrow>
            handle_acl env self method_arg r = f env self r)
       \<and> (getattr_of (cls self) m = None \<and> \<not> multiupload_family (cls self) \<longrightarrow>
            handle_acl env self method_arg r = p_handle_acl env self m None None None None r)
       \<and> (getattr_of (cls self) m = None \<and> multiupload_family (cls self) \<longrightarrow>
            handle_acl env self method_arg r = (Inr None, r))"
  unfolding assms
  by (simp add: handle_acl_def Base_handle_acl_def MultiUpload_handle_acl_def getattr_of_def
        Let_def)

theorem handle_acl_dispatch_witness:
  "verb_method S3AclHandler ''GET'' = Some S3Acl_GET
   \<and> handle_acl ex_env (ex_handler S3AclHandler ''GET'' (Some ''bucket'') None) (Some ''GET'')
        (ex_req ''GET'' (Some ''bucket'') None)
       = S3Acl_GET ex_env (ex_handler S3AclHandler ''GET'' (Some ''bucket'') None)
           (ex_req ''GET'' (Some ''bucket'') None)
   \<and> getattr_of BaseAclHandler ''GET'' = None
   \<and> \<not> multiupload_family BaseAclHandler
   \<and> handle_acl ex_env (ex_handler BaseAclHandler ''GET'' (Some ''bucket'') None) None
        (ex_req ''GET'' (Some ''bucket'') None)
       = p_handle_acl ex_env (ex_handler BaseAclHandler ''GET'' (Some ''bucket'') None) ''GET''
           None None None None (ex_req ''GET'' (Some ''bucket'') None)
   \<and> getattr_of PartAclHandler ''PUT'' = None
   \<and> multiupload_family PartAclHandler
   \<and> handle_acl ex_env (ex_handler PartAclHandler ''PUT'' (Some ''bucket'') (Some ''key''))
        (Some ''PUT'') (ex_req ''PUT'' (Some ''bucket'') (Some ''key''))
       = (Inr None, ex_req ''PUT'' (Some ''bucket'') (Some ''key''))"
proof -
  let ?s = "ex_handler S3AclHandler ''GET'' (Some ''bucket'') None"
  let ?b = "ex_handler BaseAclHandler ''GET'' (Some ''bucket'') None"
  let ?p = "ex_handler PartAclHandler ''PUT'' (Some ''bucket'') (Some ''key'')"
  have cls: "cls ?s = S3AclHandler" "cls ?b = BaseAclHandler" "cls ?p = PartAclHandler"
    by (simp_all add: ex_handler_def Base_init_def)
  have m1: "''GET'' = (if truthy (Some ''GET'') then the (Some ''GET'') else h_method ?s)"
    by (simp add: truthy_def)
  have m2: "''GET'' = (if truthy None then the None else h_method ?b)"
    by (simp add: truthy_def ex_handler_def Base_init_def ex_req_def)
  have m3: "''PUT'' = (if truthy (Some ''PUT'') then the (Some ''PUT'') else h_method ?p)"
    by (simp add: truthy_def)
  have v1: "verb_method S3AclHandler ''GET'' = Some S3Acl_GET"
    by simp
  have g2: "getattr_of BaseAclHandler ''GET'' = None"
    by (simp add: getattr_of_def other_attribute_def)
  have g3: "getattr_of PartAclHandler ''PUT'' = None"
    by (simp add: getattr_of_def other_attribute_def)
  have f2: "\<not> multiupload_family BaseAclHandler" and f3: "multiupload_family PartAclHandler"
    by simp_all
  from handle_acl_dispatch [OF m1, of ex_env "ex_req ''GET'' (Some ''bucket'') None"] v1
  have c1: "handle_acl ex_env ?s (Some ''GET'') (ex_req ''GET'' (Some ''bucket'') None)
              = S3Acl_GET ex_env ?s (ex_req ''GET'' (Some ''bucket'') None)"
    unfolding cls by blast
  from handle_acl_dispatch [OF m2, of ex_env "ex_req ''GET'' (Some ''bucket'') None"] g2 f2
  have c2: "handle_acl ex_env ?b None (ex_req ''GET'' (Some ''bucket'') None)
              = p_handle_acl ex_env ?b ''GET'' None None None None
                  (ex_req ''GET'' (Some ''bucket'') None)"
    unfolding cls by blast
  from handle_acl_dispatch [OF m3, of ex_env "ex_req ''PUT'' (Some ''bucket'') (Some ''key'')"]
    g3 f3
  have c3: "handle_acl ex_env ?p (Some ''PUT'') (ex_req ''PUT'' (Some ''bucket'') (Some ''key''))
              = (Inr None, ex_req ''PUT'' (Some ''bucket'') (Some ''key''))"
    unfolding cls by blast
  from v1 c1 g2 f2 c2 g3 f3 c3 show ?thesis
    by blast
qed

text \<open>
  Claim C8 as the specification words it fails for the multipart-upload family:
  \<open>UploadAclHandler\<close> has no method \<open>DELETE\<close>, and \<open>handle_acl\<close> with the verb
  \<open>DELETE\<close> returns without calling the backend, while the generic check with that verb
  would probe the container.
\<close>

theorem handle_acl_upload_DELETE_counterexample:
  "new_handler ex_env UploadAclHandler
      (ex_req ''DELETE'' (Some ''bucket+segments'') (Some ''key'')) None None None
     = Inr ex_upload_handler
   \<and> verb_method UploadAclHandler ''DELETE'' = None
   \<and> handle_acl ex_env ex_upload_handler (Some ''DELETE'')
        (ex_req ''DELETE'' (Some ''bucket+segments'') (Some ''key''))
       = (Inr None, ex_req ''DELETE'' (Some ''bucket+segments'') (Some ''key''))
   \<and> p_handle_acl ex_env ex_upload_handler ''DELETE'' None None None None
        (ex_req ''DELETE'' (Some ''bucket+segments'') (Some ''key''))
       = (Inr None, (ex_req ''DELETE'' (Some ''bucket+segments'') (Some ''key''))
            \<lparr>trace := [Call ''HEAD'' (Some ''bucket'') (Some []) None]\<rparr>)
   \<and> handle_acl ex_env ex_upload_handler (Some ''DELETE'')
        (ex_req ''DELETE'' (Some ''bucket+segments'') (Some ''key''))
       \<noteq> p_handle_acl ex_env ex_upload_handler ''DELETE'' None None None None
            (ex_req ''DELETE'' (Some ''bucket+segments'') (Some ''key''))"
  by (simp add: ex_upload_handler_def MultiUpload_init_def slice_to_minus_def
        handle_acl_def MultiUpload_handle_acl_def getattr_of_def other_attribute_def
        p_handle_acl_def Let_def get_acl_response_def ex_handler_def Base_init_def
        ex_req_def truthy_def resolve_def ACL_MAP_def ACL_MAP_items_def ex_env_def
        ex_check_permission_def acl_of_def alice_def)

subsection \<open>The ACL endpoint: the owner of a resource does not change\<close>

text \<open>What \<open>S3AclHandler.PUT\<close> and \<open>POST\<close> return once the probes, the body and
  \<open>get_acl\<close> have succeeded, what a successful run has gone through, and that the generic
  check and the backend call leave the two ACL attributes of the request alone.\<close>

lemma S3Acl_PUT_reaches_owner_check:
  assumes "is_object_request r"
    and "get_acl_response env ''HEAD'' None (Some []) None r = (Inr b_resp, ra)"
    and "p_handle_acl env self ''HEAD'' None None (Some ''WRITE_ACP'') None ra
           = (Inr (Some o_resp), rb)"
    and "xml rb = Inr body"
    and "bucket_acl b_resp = Some bacl" and "object_acl o_resp = Some oacl"
    and "get_acl env (req_headers rb) body (owner bacl) (Some (owner oacl)) = Inr req_acl"
  shows "S3Acl_PUT env self r =
           (if id' (owner req_acl) = id' (owner oacl)
            then (Inr None, rb\<lparr>req_object_acl := Some req_acl,
                               trace := trace rb @ [SetObjectAcl (Some req_acl)]\<rparr>)
            else (Inl OwnerMismatch, rb))"
  using assms by (simp add: S3Acl_PUT_def check_owner_def)

lemma S3Acl_POST_reaches_owner_check:
  assumes "is_bucket_request r"
    and "p_handle_acl env self ''HEAD'' None None (Some ''WRITE_ACP'') None r
           = (Inr (Some rsp), ra)"
    and "xml ra = Inr body"
    and "bucket_acl rsp = Some bacl"
    and "get_acl env (req_headers ra) body (owner bacl) None = Inr req_acl"
  shows "S3Acl_POST env self r =
           (if id' (owner req_acl) = id' (owner bacl)
            then (Inr None, ra\<lparr>req_bucket_acl := Some req_acl,
                               trace := trace ra @ [SetBucketAcl (Some req_acl)]\<rparr>)
            else (Inl OwnerMismatch, ra))"
  using assms by (simp add: S3Acl_POST_def check_owner_def)

lemma S3Acl_PUT_success:
  assumes "is_object_request r" and "S3Acl_PUT env self r = (Inr v, r')"
  shows "\<exists>b_resp ra o_resp rb oacl new.
           get_acl_response env ''HEAD'' None (Some []) None r = (Inr b_resp, ra)
         \<and> p_handle_acl env self ''HEAD'' None None (Some ''WRITE_ACP'') None ra
             = (Inr (Some o_resp), rb)
         \<and> object_acl o_resp = Some oacl
         \<and> req_object_acl r' = Some new \<and> id' (owner new) = id' (owner oacl)"
  using assms
  by (simp add: S3Acl_PUT_def check_owner_def
        split: prod.splits sum.splits option.splits if_splits) auto

lemma S3Acl_POST_success:
  assumes "is_bucket_request r" and "S3Acl_POST env self r = (Inr v, r')"
  shows "\<exists>rsp ra bacl new.
           p_handle_acl env self ''HEAD'' None None (Some ''WRITE_ACP'') None r
             = (Inr (Some rsp), ra)
         \<and> bucket_acl rsp = Some bacl
         \<and> req_bucket_acl r' = Some new \<and> id' (owner new) = id' (owner bacl)"
  using assms
  by (simp add: S3Acl_POST_def check_owner_def
        split: prod.splits sum.splits option.splits if_splits) auto


lemma get_acl_response_acls:
  "req_object_acl (snd (get_acl_response env m c ob hs r)) = req_object_acl r
   \<and> req_bucket_acl (snd (get_acl_response env m c ob hs r)) = req_bucket_acl r"
  by (simp add: get_acl_response_def)

lemma p_handle_acl_acls:
  "req_object_acl (snd (p_handle_acl env self sw c ob perm hs r)) = req_object_acl r
   \<and> req_bucket_acl (snd (p_handle_acl env self sw c ob perm hs r)) = req_bucket_acl r"
proof (cases "truthy (case c of None \<Rightarrow> container self | Some x \<Rightarrow> Some x)")
  case False
  then show ?thesis
    by (simp add: p_handle_acl_def Let_def)
next
  case True
  obtain resource p where rs:
    "resolve (h_method self) (if sw \<noteq> [] then sw else REQUEST_METHOD r)
       (if truthy (case ob of None \<Rightarrow> obj self | Some x \<Rightarrow> Some x)
        then ''object'' else ''container'') perm = (resource, p)"
    by (cases "resolve (h_method self) (if sw \<noteq> [] then sw else REQUEST_METHOD r)
       (if truthy (case ob of None \<Rightarrow> obj self | Some x \<Rightarrow> Some x)
        then ''object'' else ''container'') perm") blast
  show ?thesis
  proof (cases "truthy p")
    case False
    with True rs show ?thesis
      by (simp add: p_handle_acl_def Let_def)
  next
    case tp: True
    consider "resource = ''object''" | "resource = ''container''"
      | "resource \<noteq> ''object''" "resource \<noteq> ''container''"
      by blast
    then show ?thesis
    proof cases
      case 1
      with True rs tp show ?thesis
        by (simp add: p_handle_acl_def Let_def get_acl_response_def
              split: sum.split option.split)
    next
      case 2
      with True rs tp show ?thesis
        by (simp add: p_handle_acl_def Let_def get_acl_response_def
              split: sum.split option.split)
    next
      case 3
      with True rs tp show ?thesis
        by (simp add: p_handle_acl_def Let_def)
    qed
  qed
qed

text \<open>
  Claim C2. In \<open>S3AclHandler.PUT\<close> on an object and \<open>S3AclHandler.POST\<close> on a bucket,
  once the caller's \<open>WRITE_ACP\<close> check has passed and \<open>get_acl\<close> has produced the new
  ACL, an owner id of the new ACL that differs from the owner id of the existing ACL makes
  the operation fail with the owner-mismatch error, and the request's ACL attribute is
  left as it was. Whenever one of the two operations succeeds, the ACL it stores has the
  owner id of the existing ACL. \<open>check_owner\<close> is the model taken from the
  specification.
\<close>

theorem acl_write_keeps_owner:
  "(is_object_request r
      \<and> get_acl_response env ''HEAD'' None (Some []) None r = (Inr b_resp, ra)
      \<and> p_handle_acl env self ''HEAD'' None None (Some ''WRITE_ACP'') None ra
          = (Inr (Some o_resp), rb)
      \<and> xml rb = Inr body
      \<and> bucket_acl b_resp = Some bacl \<and> object_acl o_resp = Some oacl
      \<and> get_acl env (req_headers rb) body (owner bacl) (Some (owner oacl)) = Inr req_acl
      \<and> id' (owner req_acl) \<noteq> id' (owner oacl)
    \<longrightarrow> S3Acl_PUT env self r = (Inl OwnerMismatch, rb)
        \<and> req_object_acl rb = req_object_acl r)
   \<and> (is_bucket_request r
      \<and> p_handle_acl env self ''HEAD'' None None (Some ''WRITE_ACP'') None r
          = (Inr (Some rsp), rc)
      \<and> xml rc = Inr body'
      \<and> bucket_acl rsp = Some bacl'
      \<and> get_acl env (req_headers rc) body' (owner bacl') None = Inr req_acl'
      \<and> id' (owner req_acl') \<noteq> id' (owner bacl')
    \<longrightarrow> S3Acl_POST env self r = (Inl OwnerMismatch, rc)
        \<and> req_bucket_acl rc = req_bucket_acl r)
   \<and> (is_object_request r \<and> S3Acl_PUT env self r = (Inr v, rf)
    \<longrightarrow> (\<exists>b_resp ra o_resp rb oacl new.
           get_acl_response env ''HEAD'' None (Some []) None r = (Inr b_resp, ra)
         \<and> p_handle_acl env self ''HEAD'' None None (Some ''WRITE_ACP'') None ra
             = (Inr (Some o_resp), rb)
         \<and> object_acl o_resp = Some oacl
         \<and> req_object_acl rf = Some new \<and> id' (owner new) = id' (owner oacl)))
   \<and> (is_bucket_request r \<and> S3Acl_POST env self r = (Inr v', rf')
    \<longrightarrow> (\<exists>rsp rc bacl new.
           p_handle_acl env self ''HEAD'' None None (Some ''WRITE_ACP'') None r
             = (Inr (Some rsp), rc)
         \<and> bucket_acl rsp = Some bacl
         \<and> req_bucket_acl rf' = Some new \<and> id' (owner new) = id' (owner bacl)))"
proof (intro conjI impI)
  assume h: "is_object_request r
      \<and> get_acl_response env ''HEAD'' None (Some []) None r = (Inr b_resp, ra)
      \<and> p_handle_acl env self ''HEAD'' None None (Some ''WRITE_ACP'') None ra
          = (Inr (Some o_resp), rb)
      \<and> xml rb = Inr body
      \<and> bucket_acl b_resp = Some bacl \<and> object_acl o_resp = Some oacl
      \<and> get_acl env (req_headers rb) body (owner bacl) (Some (owner oacl)) = Inr req_acl
      \<and> id' (owner req_acl) \<noteq> id' (owner oacl)"
  then show "S3Acl_PUT env self r = (Inl OwnerMismatch, rb)"
    using S3Acl_PUT_reaches_owner_check [of r env b_resp ra self o_resp rb body bacl oacl req_acl]
    by simp
  from h show "req_object_acl rb = req_object_acl r"
    using get_acl_response_acls [of env "''HEAD''" None "Some []" None r]
      p_handle_acl_acls [of env self "''HEAD''" None None "Some ''WRITE_ACP''" None ra]
    by simp
next
  assume h: "is_bucket_request r
      \<and> p_handle_acl env self ''HEAD'' None None (Some ''WRITE_ACP'') None r
          = (Inr (Some rsp), rc)
      \<and> xml rc = Inr body'
      \<and> bucket_acl rsp = Some bacl'
      \<and> get_acl env (req_headers rc) body' (owner bacl') None = Inr req_acl'
      \<and> id' (owner req_acl') \<noteq> id' (owner bacl')"
  then show "S3Acl_POST env self r = (Inl OwnerMismatch, rc)"
    using S3Acl_POST_reaches_owner_check [of r env self rsp rc body' bacl' req_acl']
    by simp
  from h show "req_bucket_acl rc = req_bucket_acl r"
    using p_handle_acl_acls [of env self "''HEAD''" None None "Some ''WRITE_ACP''" None r]
    by simp
next
  assume "is_object_request r \<and> S3Acl_PUT env self r = (Inr v, rf)"
  then show "\<exists>b_resp ra o_resp rb oacl new.
           get_acl_response env ''HEAD'' None (Some []) None r = (Inr b_resp, ra)
         \<and> p_handle_acl env self ''HEAD'' None None (Some ''WRITE_ACP'') None ra
             = (Inr (Some o_resp), rb)
         \<and> object_acl o_resp = Some oacl
         \<and> req_object_acl rf = Some new \<and> id' (owner new) = id' (owner oacl)"
    using S3Acl_PUT_success [of r env self v rf] by blast
next
  assume "is_bucket_request r \<and> S3Acl_POST env self r = (Inr v', rf')"
  then show "\<exists>rsp rc bacl new.
           p_handle_acl env self ''HEAD'' None None (Some ''WRITE_ACP'') None r
             = (Inr (Some rsp), rc)
         \<and> bucket_acl rsp = Some bacl
         \<and> req_bucket_acl rf' = Some new \<and> id' (owner new) = id' (owner bacl)"
    using S3Acl_POST_success [of r env self v' rf'] by blast
qed


theorem acl_write_keeps_owner_witness:
  "is_object_request (ex_req ''PUT'' (Some ''bucket'') (Some ''key''))
   \<and> id' (owner (acl_of bob)) \<noteq> id' (owner (acl_of alice))
   \<and> fst (S3Acl_PUT ex_env (ex_handler S3AclHandler ''PUT'' (Some ''bucket'') (Some ''key''))
        (ex_req ''PUT'' (Some ''bucket'') (Some ''key''))) = Inl OwnerMismatch
   \<and> req_object_acl (snd (S3Acl_PUT ex_env
        (ex_handler S3AclHandler ''PUT'' (Some ''bucket'') (Some ''key''))
        (ex_req ''PUT'' (Some ''bucket'') (Some ''key'')))) = None
   \<and> is_bucket_request (ex_req ''POST'' (Some ''bucket'') None)
   \<and> fst (S3Acl_POST ex_env (ex_handler S3AclHandler ''POST'' (Some ''bucket'') None)
        (ex_req ''POST'' (Some ''bucket'') None)) = Inl OwnerMismatch
   \<and> req_bucket_acl (snd (S3Acl_POST ex_env
        (ex_handler S3AclHandler ''POST'' (Some ''bucket'') None)
        (ex_req ''POST'' (Some ''bucket'') None))) = None
   \<and> is_object_request
        ((ex_req ''PUT'' (Some ''bucket'') (Some ''key''))\<lparr>xml := Inr (Some ''<ID>alice</ID>'')\<rparr>)
   \<and> fst (S3Acl_PUT ex_env (ex_handler S3AclHandler ''PUT'' (Some ''bucket'') (Some ''key''))
        ((ex_req ''PUT'' (Some ''bucket'') (Some ''key''))\<lparr>xml := Inr (Some ''<ID>alice</ID>'')\<rparr>))
       = Inr None
   \<and> (\<exists>b_resp ra o_resp rb oacl new.
         get_acl_response ex_env ''HEAD'' None (Some []) None
           ((ex_req ''PUT'' (Some ''bucket'') (Some ''key''))\<lparr>xml := Inr (Some ''<ID>alice</ID>'')\<rparr>)
           = (Inr b_resp, ra)
       \<and> p_handle_acl ex_env (ex_handler S3AclHandler ''PUT'' (Some ''bucket'') (Some ''key''))
           ''HEAD'' None None (Some ''WRITE_ACP'') None ra = (Inr (Some o_resp), rb)
       \<and> object_acl o_resp = Some oacl
       \<and> req_object_acl (snd (S3Acl_PUT ex_env
             (ex_handler S3AclHandler ''PUT'' (Some ''bucket'') (Some ''key''))
             ((ex_req ''PUT'' (Some ''bucket'') (Some ''key''))\<lparr>xml := Inr (Some ''<ID>alice</ID>'')\<rparr>)))
           = Some new
       \<and> id' (owner new) = id' (owner oacl))"
proof -
  let ?p = "(ex_req ''PUT'' (Some ''bucket'') (Some ''key''))\<lparr>xml := Inr (Some ''<ID>alice</ID>'')\<rparr>"
  let ?r = "ex_req ''PUT'' (Some ''bucket'') (Some ''key'')"
  let ?h = "ex_handler S3AclHandler ''PUT'' (Some ''bucket'') (Some ''key'')"
  let ?q = "ex_req ''POST'' (Some ''bucket'') None"
  let ?g = "ex_handler S3AclHandler ''POST'' (Some ''bucket'') None"
  let ?resp = "\<lparr>bucket_acl = Some (acl_of alice), object_acl = Some (acl_of alice)\<rparr>"
  let ?ra = "?r\<lparr>trace := [Call ''HEAD'' None (Some []) None]\<rparr>"
  let ?rb = "?r\<lparr>trace := [Call ''HEAD'' None (Some []) None,
                           Call ''HEAD'' (Some ''bucket'') (Some ''key'') (Some [])]\<rparr>"
  let ?qa = "?q\<lparr>trace := [Call ''HEAD'' (Some ''bucket'') (Some []) None]\<rparr>"
  have a1: "is_object_request ?r" and n1: "req_object_acl ?r = None"
    and b1: "is_bucket_request ?q" and n2: "req_bucket_acl ?q = None"
    by (simp_all add: ex_req_def truthy_def)
  have a2: "get_acl_response ex_env ''HEAD'' None (Some []) None ?r = (Inr ?resp, ?ra)"
    by (simp add: get_acl_response_def ex_env_def ex_req_def)
  have a3: "p_handle_acl ex_env ?h ''HEAD'' None None (Some ''WRITE_ACP'') None ?ra
              = (Inr (Some ?resp), ?rb)"
    by (simp add: p_handle_acl_def Let_def get_acl_response_def ex_handler_def Base_init_def
          ex_req_def truthy_def resolve_def ex_env_def ex_check_permission_def acl_of_def
          alice_def)
  have b2: "p_handle_acl ex_env ?g ''HEAD'' None None (Some ''WRITE_ACP'') None ?q
              = (Inr (Some ?resp), ?qa)"
    by (simp add: p_handle_acl_def Let_def get_acl_response_def ex_handler_def Base_init_def
          ex_req_def truthy_def resolve_def ex_env_def ex_check_permission_def acl_of_def
          alice_def)
  have a4: "xml ?rb = Inr (Some ''<ID>bob</ID>'')" and b3: "xml ?qa = Inr (Some ''<ID>bob</ID>'')"
    by (simp_all add: ex_req_def)
  have a5: "bucket_acl ?resp = Some (acl_of alice)" and a6: "object_acl ?resp = Some (acl_of alice)"
    by simp_all
  have a7: "get_acl ex_env (req_headers ?rb) (Some ''<ID>bob</ID>'') (owner (acl_of alice))
              (Some (owner (acl_of alice))) = Inr (acl_of bob)"
    by (simp add: get_acl_def ex_env_def ex_from_headers_def ex_from_body_def ex_req_def
          truthy_def)
  have b4: "get_acl ex_env (req_headers ?qa) (Some ''<ID>bob</ID>'') (owner (acl_of alice)) None
              = Inr (acl_of bob)"
    by (simp add: get_acl_def ex_env_def ex_from_headers_def ex_from_body_def ex_req_def
          truthy_def)
  have a8: "id' (owner (acl_of bob)) \<noteq> id' (owner (acl_of alice))"
    by (simp add: acl_of_def bob_def alice_def)
  have c1: "S3Acl_PUT ex_env ?h ?r = (Inl OwnerMismatch, ?rb)
            \<and> req_object_acl ?rb = req_object_acl ?r"
    using acl_write_keeps_owner [where r = ?r and env = ex_env and b_resp = ?resp and ra = ?ra
        and self = ?h and o_resp = ?resp and rb = ?rb and body = "Some ''<ID>bob</ID>''"
        and bacl = "acl_of alice" and oacl = "acl_of alice" and req_acl = "acl_of bob",
        THEN conjunct1]
      a1 a2 a3 a4 a5 a6 a7 a8
    by blast
  have c2: "S3Acl_POST ex_env ?g ?q = (Inl OwnerMismatch, ?qa)
            \<and> req_bucket_acl ?qa = req_bucket_acl ?q"
    using acl_write_keeps_owner [where r = ?q and env = ex_env and self = ?g and rsp = ?resp
        and rc = ?qa and body' = "Some ''<ID>bob</ID>''" and bacl' = "acl_of alice"
        and req_acl' = "acl_of bob", THEN conjunct2, THEN conjunct1]
      b1 b2 b3 a5 b4 a8
    by blast
  have d1: "is_object_request ?p"
    by (simp add: ex_req_def truthy_def)
  have d2: "fst (S3Acl_PUT ex_env ?h ?p) = Inr None"
    by (simp add: S3Acl_PUT_def check_owner_def get_acl_def p_handle_acl_def Let_def
          get_acl_response_def ex_handler_def Base_init_def ex_req_def truthy_def resolve_def
          ex_env_def ex_check_permission_def ex_from_headers_def ex_from_body_def acl_of_def
          alice_def)
  then have d3: "S3Acl_PUT ex_env ?h ?p = (Inr None, snd (S3Acl_PUT ex_env ?h ?p))"
    by (metis prod.collapse)
  have c3: "\<exists>b_resp ra o_resp rb oacl new.
         get_acl_response ex_env ''HEAD'' None (Some []) None ?p = (Inr b_resp, ra)
       \<and> p_handle_acl ex_env ?h ''HEAD'' None None (Some ''WRITE_ACP'') None ra
           = (Inr (Some o_resp), rb)
       \<and> object_acl o_resp = Some oacl
       \<and> req_object_acl (snd (S3Acl_PUT ex_env ?h ?p)) = Some new
       \<and> id' (owner new) = id' (owner oacl)"
    using acl_write_keeps_owner [where r = ?p and env = ex_env and self = ?h and v = None
        and rf = "snd (S3Acl_PUT ex_env ?h ?p)", THEN conjunct2, THEN conjunct2, THEN conjunct1]
      d1 d3
    by blast
  from c1 have e1: "fst (S3Acl_PUT ex_env ?h ?r) = Inl OwnerMismatch"
    and e2: "req_object_acl (snd (S3Acl_PUT ex_env ?h ?r)) = None"
    using n1 by simp_all
  from c2 have e3: "fst (S3Acl_POST ex_env ?g ?q) = Inl OwnerMismatch"
    and e4: "req_bucket_acl (snd (S3Acl_POST ex_env ?g ?q)) = None"
    using n2 by simp_all
  from a1 a8 e1 e2 b1 e3 e4 d1 d2 c3 show ?thesis
    by blast
qed

end
